theory Spec2Isabelle
  imports Complex_Main
begin

section \<open>JavaScript strings and JSON values (frontend/app.js)\<close>

text \<open>
  A JavaScript string is modelled by the bytes of its UTF-8 encoding, so a
  character outside ASCII is several \<open>char\<close>s. Only emptiness and equality of
  strings are observed by the code below, never a length in code units.
\<close>

definition nl :: string where
  "nl = [CHR 0x0A]"

definition sp :: "nat \<Rightarrow> string" where
  "sp n = replicate n CHR '' ''"

text \<open>\<open>String.prototype.startsWith\<close>.\<close>

definition startsWith :: "string \<Rightarrow> string \<Rightarrow> bool" where
  "startsWith s p = (take (length p) s = p)"

text \<open>
  \<open>String.prototype.toLowerCase\<close>. The letters A to Z go to a to z, and the
  Kelvin sign U+212A (bytes E2 84 AA) goes to k: these are the only characters whose
  lower-case form is ASCII. Every property name looked up below is ASCII, so leaving
  the other characters as they are changes no lookup.
\<close>

definition lower_char :: "char \<Rightarrow> char" where
  "lower_char c =
     (case map_of (zip ''ABCDEFGHIJKLMNOPQRSTUVWXYZ'' ''abcdefghijklmnopqrstuvwxyz'') c of
        Some l \<Rightarrow> l
      | None \<Rightarrow> c)"

fun toLowerCase :: "string \<Rightarrow> string" where
  "toLowerCase (a # b # c # cs) =
     (if a = CHR 0xE2 \<and> b = CHR 0x84 \<and> c = CHR 0xAA then CHR ''k'' # toLowerCase cs
      else lower_char a # toLowerCase (b # c # cs))"
| "toLowerCase (a # cs) = lower_char a # toLowerCase cs"
| "toLowerCase [] = []"

text \<open>
  \<open>String.prototype.trim\<close> removes the WhiteSpace and LineTerminator code points
  from both ends: U+0009 to U+000D, U+0020, U+00A0, U+1680, U+2000 to U+200A, U+2028,
  U+2029, U+202F, U+205F, U+3000 and U+FEFF, here by their UTF-8 bytes.
\<close>

definition ws1 :: "char \<Rightarrow> bool" where
  "ws1 a = (a \<in> set [CHR 0x09, CHR 0x0A, CHR 0x0B, CHR 0x0C, CHR 0x0D, CHR 0x20])"

definition ws2 :: "char \<Rightarrow> char \<Rightarrow> bool" where
  "ws2 a b = (a = CHR 0xC2 \<and> b = CHR 0xA0)"

definition ws3 :: "char \<Rightarrow> char \<Rightarrow> char \<Rightarrow> bool" where
  "ws3 a b c =
     ((a = CHR 0xE1 \<and> b = CHR 0x9A \<and> c = CHR 0x80) \<or>
      (a = CHR 0xE2 \<and> b = CHR 0x80 \<and>
         c \<in> set [CHR 0x80, CHR 0x81, CHR 0x82, CHR 0x83, CHR 0x84, CHR 0x85, CHR 0x86,
                   CHR 0x87, CHR 0x88, CHR 0x89, CHR 0x8A, CHR 0xA8, CHR 0xA9, CHR 0xAF]) \<or>
      (a = CHR 0xE2 \<and> b = CHR 0x81 \<and> c = CHR 0x9F) \<or>
      (a = CHR 0xE3 \<and> b = CHR 0x80 \<and> c = CHR 0x80) \<or>
      (a = CHR 0xEF \<and> b = CHR 0xBB \<and> c = CHR 0xBF))"

text \<open>
  \<open>strip\<close> drops leading white space; \<open>w2\<close> and \<open>w3\<close> recognise the two-byte
  and three-byte encodings, given in the order in which the bytes are met.
\<close>

fun strip :: "(char \<Rightarrow> char \<Rightarrow> bool) \<Rightarrow> (char \<Rightarrow> char \<Rightarrow> char \<Rightarrow> bool) \<Rightarrow> string \<Rightarrow> string" where
  "strip w2 w3 (a # b # c # cs) =
     (if ws1 a then strip w2 w3 (b # c # cs)
      else if w2 a b then strip w2 w3 (c # cs)
      else if w3 a b c then strip w2 w3 cs
      else a # b # c # cs)"
| "strip w2 w3 [a, b] =
     (if ws1 a then strip w2 w3 [b] else if w2 a b then [] else [a, b])"
| "strip w2 w3 [a] = (if ws1 a then [] else [a])"
| "strip w2 w3 [] = []"

definition trimStart :: "string \<Rightarrow> string" where
  "trimStart s = strip ws2 ws3 s"

definition trimEnd :: "string \<Rightarrow> string" where
  "trimEnd s = rev (strip (\<lambda>b a. ws2 a b) (\<lambda>c b a. ws3 a b c) (rev s))"

definition trim :: "string \<Rightarrow> string" where
  "trim s = trimStart (trimEnd s)"

text \<open>\<open>Array.prototype.join\<close> on strings.\<close>

fun join :: "string \<Rightarrow> string list \<Rightarrow> string" where
  "join sep [] = []"
| "join sep [x] = x"
| "join sep (x # y # ys) = x @ sep @ join sep (y # ys)"

text \<open>
  A number of the parsed response. The code never computes with a number: it tests
  whether it is falsy and it prints it. So a number is given by what these two
  observations see: it is zero (\<open>0\<close> or \<open>-0\<close>), or it is finite and not zero, with the
  text that \<open>Number.prototype.toString\<close> gives for it (plain decimal or exponent
  notation), or it is one of the infinities, which \<open>JSON.parse\<close> yields for a literal
  beyond the range of a double.
\<close>

datatype jsnumber = Zero | Nonzero string | PlusInfinity | MinusInfinity

text \<open>
  A value of the parsed response; a property that is missing (the value
  \<open>undefined\<close>) is \<open>None\<close> of \<open>json option\<close>. An object is the list of its own
  properties in enumeration order; its prototype is \<open>Object.prototype\<close>, and none of
  its properties is callable.
\<close>

datatype json =
  JNull
| JBool bool
| JNum jsnumber
| JStr string
| JArr "json list"
| JObj "(string \<times> json) list"

datatype exn = TypeError

text \<open>\<open>ToString\<close> of a number.\<close>

fun numberToString :: "jsnumber \<Rightarrow> string" where
  "numberToString Zero = ''0''"
| "numberToString (Nonzero t) = t"
| "numberToString PlusInfinity = ''Infinity''"
| "numberToString MinusInfinity = ''-Infinity''"

text \<open>The conversions of the elements of an array, in order; the first that throws ends them.\<close>

fun collect :: "(exn + 'a) list \<Rightarrow> exn + 'a list" where
  "collect [] = Inr []"
| "collect (Inl e # rs) = Inl e"
| "collect (Inr x # rs) = (case collect rs of Inl e \<Rightarrow> Inl e | Inr xs \<Rightarrow> Inr (x # xs))"

text \<open>
  \<open>ToString\<close>, as \<open>Array.prototype.join\<close> applies it to the elements of an array:
  \<open>null\<close> and \<open>undefined\<close> elements give the empty string and a nested array is
  joined by commas. For an object, \<open>OrdinaryToPrimitive\<close> looks up \<open>toString\<close>: a
  plain object inherits \<open>Object.prototype.toString\<close> and gives \<open>[object Object]\<close>,
  but an own property of that name is not callable, \<open>valueOf\<close> then gives no
  primitive either, and a TypeError is thrown.
\<close>

fun toString :: "json \<Rightarrow> exn + string" where
  "toString JNull = Inr ''null''"
| "toString (JBool b) = Inr (if b then ''true'' else ''false'')"
| "toString (JNum n) = Inr (numberToString n)"
| "toString (JStr s) = Inr s"
| "toString (JArr xs) =
     (case collect (map (\<lambda>v. case v of JNull \<Rightarrow> Inr [] | _ \<Rightarrow> toString v) xs) of
        Inl e \<Rightarrow> Inl e
      | Inr ss \<Rightarrow> Inr (join '','' ss))"
| "toString (JObj kvs) =
     (if ''toString'' \<in> set (map fst kvs) then Inl TypeError else Inr ''[object Object]'')"

definition array_join :: "string \<Rightarrow> json list \<Rightarrow> exn + string" where
  "array_join sep xs =
     (case collect (map (\<lambda>v. case v of JNull \<Rightarrow> Inr [] | _ \<Rightarrow> toString v) xs) of
        Inl e \<Rightarrow> Inl e
      | Inr ss \<Rightarrow> Inr (join sep ss))"

text \<open>A value that \<open>ToString\<close> cannot convert: an object with an own \<open>toString\<close>
  property, or an array with such an element at any depth.\<close>

fun unprintable :: "json \<Rightarrow> bool" where
  "unprintable (JObj kvs) = (''toString'' \<in> set (map fst kvs))"
| "unprintable (JArr xs) = list_ex unprintable xs"
| "unprintable v = False"

text \<open>
  \<open>JSON.stringify\<close> without indentation; \<open>quote\<close> is its string escaping. A number
  that is not finite is written \<open>null\<close>.
\<close>

definition hex_char :: "nat \<Rightarrow> char" where
  "hex_char d = ''0123456789abcdef'' ! d"

definition quote_char :: "char \<Rightarrow> string" where
  \<open>quote_char c =
     (if c = CHR 0x22 then [CHR 0x5C, CHR 0x22]
      else if c = CHR 0x5C then [CHR 0x5C, CHR 0x5C]
      else if c = CHR 0x08 then [CHR 0x5C, CHR ''b'']
      else if c = CHR 0x09 then [CHR 0x5C, CHR ''t'']
      else if c = CHR 0x0A then [CHR 0x5C, CHR ''n'']
      else if c = CHR 0x0C then [CHR 0x5C, CHR ''f'']
      else if c = CHR 0x0D then [CHR 0x5C, CHR ''r'']
      else if (of_char c :: nat) < 32
        then [CHR 0x5C, CHR ''u'', CHR ''0'', CHR ''0'',
              hex_char ((of_char c :: nat) div 16), hex_char ((of_char c :: nat) mod 16)]
      else [c])\<close>

definition quote :: "string \<Rightarrow> string" where
  "quote s = [CHR 0x22] @ concat (map quote_char s) @ [CHR 0x22]"

fun number_json :: "jsnumber \<Rightarrow> string" where
  "number_json Zero = ''0''"
| "number_json (Nonzero t) = t"
| "number_json PlusInfinity = ''null''"
| "number_json MinusInfinity = ''null''"

fun JSON_stringify :: "json \<Rightarrow> string" where
  "JSON_stringify JNull = ''null''"
| "JSON_stringify (JBool b) = (if b then ''true'' else ''false'')"
| "JSON_stringify (JNum n) = number_json n"
| "JSON_stringify (JStr s) = quote s"
| "JSON_stringify (JArr xs) = ''['' @ join '','' (map JSON_stringify xs) @ '']''"
| "JSON_stringify (JObj kvs) =
     ''{'' @ join '','' (map (\<lambda>(k, v). quote k @ '':'' @ JSON_stringify v) kvs) @ ''}''"

text \<open>Truthiness of a response property, as \<open>if (result.story)\<close> tests it.\<close>

fun truthy :: "json option \<Rightarrow> bool" where
  "truthy None = False"
| "truthy (Some JNull) = False"
| "truthy (Some (JBool b)) = b"
| "truthy (Some (JNum n)) = (n \<noteq> Zero)"
| "truthy (Some (JStr s)) = (s \<noteq> [])"
| "truthy (Some (JArr xs)) = True"
| "truthy (Some (JObj kvs)) = True"

section \<open>The page and file validation (frontend/app.js)\<close>

text \<open>A \<open>File\<close> as \<open>handleFile\<close> reads it: its name, MIME type and size in bytes.\<close>

record js_file =
  file_name :: string
  file_type :: string
  file_size :: nat

text \<open>A DOM element: its markup and its \<open>style.display\<close>.\<close>

record element =
  innerHTML :: string
  display :: string

text \<open>
  The part of the document that \<open>handleFile\<close> and \<open>showError\<close> touch.
  \<open>results\<close> is the element with id \<open>results\<close>, which is also
  \<open>this.resultsContainer\<close>; it and the loading section may be absent
  (\<open>getElementById\<close> gives \<open>null\<close>). \<open>preview_reads\<close> lists the files that
  \<open>showImagePreview\<close> has handed to a \<open>FileReader\<close>; the preview image changes when
  such a read completes.
\<close>

record page =
  results :: "element option"
  loading_section :: "element option"
  analyze_disabled :: bool
  preview_reads :: "js_file list"

datatype outcome = Returned | Threw exn

definition error_card_head :: string where
  \<open>error_card_head =
     nl @
     sp 16 @ ''<div class="results-header">'' @ nl @
     sp 20 @ ''<h2><i class="fas fa-exclamation-triangle"></i> Error</h2>'' @ nl @
     sp 16 @ ''</div>'' @ nl @
     sp 16 @ ''<div class="results-grid">'' @ nl @
     sp 20 @ ''<div class="result-card">'' @ nl @
     sp 24 @ ''<h3><i class="fas fa-exclamation-circle"></i> Error</h3>'' @ nl @
     sp 24 @ ''<div class="result-content">'' @ nl @
     sp 28 @ ''<p>''\<close>

definition error_card_tail :: string where
  \<open>error_card_tail =
     ''</p>'' @ nl @
     sp 28 @ ''<button class="btn btn-secondary" onclick="createNewStory()">'' @ nl @
     sp 32 @ ''<i class="fas fa-redo"></i>'' @ nl @
     sp 32 @ ''Try Again'' @ nl @
     sp 28 @ ''</button>'' @ nl @
     sp 24 @ ''</div>'' @ nl @
     sp 20 @ ''</div>'' @ nl @
     sp 16 @ ''</div>'' @ nl @
     sp 12\<close>

definition error_card :: "string \<Rightarrow> string" where
  "error_card message = error_card_head @ message @ error_card_tail"

definition showError :: "string \<Rightarrow> page \<Rightarrow> page" where
  "showError message p =
     p\<lparr>loading_section := map_option (\<lambda>e. e\<lparr>display := ''none''\<rparr>) (loading_section p),
       results := map_option (\<lambda>e. e\<lparr>display := ''block'', innerHTML := error_card message\<rparr>)
                    (results p)\<rparr>"

definition showImagePreview :: "js_file \<Rightarrow> page \<Rightarrow> page" where
  "showImagePreview f p = p\<lparr>preview_reads := preview_reads p @ [f]\<rparr>"

text \<open>
  \<open>handleFile\<close>. On an accepted file the last statement assigns to
  \<open>this.resultsContainer.innerHTML\<close>, which throws when the element is absent.
\<close>

definition handleFile :: "js_file \<Rightarrow> page \<Rightarrow> page \<times> outcome" where
  "handleFile f p =
     (if \<not> startsWith (file_type f) ''image/''
        then (showError ''Please select an image file (JPEG, PNG, GIF, etc.)'' p, Returned)
      else if file_size f > 10 * 1024 * 1024
        then (showError ''File size must be less than 10MB'' p, Returned)
      else
        let p1 = showImagePreview f p;
            p2 = p1\<lparr>analyze_disabled := False\<rparr>
        in (case results p2 of
              None \<Rightarrow> (p2, Threw TypeError)
            | Some r \<Rightarrow> (p2\<lparr>results := Some (r\<lparr>innerHTML := []\<rparr>)\<rparr>, Returned)))"

section \<open>Rendering the response (frontend/app.js)\<close>

text \<open>
  What a property lookup on the \<open>emotionIcons\<close> object can yield: one of its own
  strings, or a member inherited from \<open>Object.prototype\<close>.
\<close>

datatype jsvalue = Str string | NativeFunction string | ObjectPrototype

text \<open>The icon strings are the bytes of the literals in app.js.\<close>

definition emotionIcons :: "(string \<times> string) list" where
  "emotionIcons =
    [(''happy'', [CHR 0xEF, CHR 0xA3, CHR 0xBF, CHR 0xC3, CHR 0xBC, CHR 0xC3, CHR 0xB2, CHR 0xC3, CHR 0xA4]),
     (''sad'', [CHR 0xEF, CHR 0xA3, CHR 0xBF, CHR 0xC3, CHR 0xBC, CHR 0xC3, CHR 0xB2, CHR 0xC2, CHR 0xA2]),
     (''angry'', [CHR 0xEF, CHR 0xA3, CHR 0xBF, CHR 0xC3, CHR 0xBC, CHR 0xC3, CHR 0xB2, CHR 0xE2, CHR 0x80, CHR 0xA0]),
     (''surprised'', [CHR 0xEF, CHR 0xA3, CHR 0xBF, CHR 0xC3, CHR 0xBC, CHR 0xC3, CHR 0xB2, CHR 0xC3, CHR 0x86]),
     (''fear'', [CHR 0xEF, CHR 0xA3, CHR 0xBF, CHR 0xC3, CHR 0xBC, CHR 0xC3, CHR 0xB2, CHR 0xC2, CHR 0xAE]),
     (''disgust'', [CHR 0xEF, CHR 0xA3, CHR 0xBF, CHR 0xC3, CHR 0xBC, CHR 0xC2, CHR 0xA7, CHR 0xC2, CHR 0xA2]),
     (''neutral'', [CHR 0xEF, CHR 0xA3, CHR 0xBF, CHR 0xC3, CHR 0xBC, CHR 0xC3, CHR 0xB2, CHR 0xC3, CHR 0xAA]),
     (''working'', [CHR 0xEF, CHR 0xA3, CHR 0xBF, CHR 0xC3, CHR 0xBC, CHR 0xC3, CHR 0xAD, CHR 0xC2, CHR 0xBA]),
     (''focused'', [CHR 0xEF, CHR 0xA3, CHR 0xBF, CHR 0xC3, CHR 0xBC, CHR 0xC3, CHR 0xA9, CHR 0xC3, CHR 0x98]),
     (''relaxed'', [CHR 0xEF, CHR 0xA3, CHR 0xBF, CHR 0xC3, CHR 0xBC, CHR 0xC3, CHR 0xB2, CHR 0xC3, CHR 0xA5]),
     (''excited'', [CHR 0xEF, CHR 0xA3, CHR 0xBF, CHR 0xC3, CHR 0xBC, CHR 0xC3, CHR 0xA9, CHR 0xC3, CHR 0xA2]),
     (''peaceful'', [CHR 0xEF, CHR 0xA3, CHR 0xBF, CHR 0xC3, CHR 0xBC, CHR 0xC3, CHR 0xAF, CHR 0xC3, CHR 0xA4, CHR 0xC3, CHR 0x94, CHR 0xE2, CHR 0x88, CHR 0x8F, CHR 0xC3, CHR 0xA8])]"

definition objectPrototype :: "(string \<times> jsvalue) list" where
  "objectPrototype =
    [(''constructor'', NativeFunction ''Object''),
     (''__defineGetter__'', NativeFunction ''__defineGetter__''),
     (''__defineSetter__'', NativeFunction ''__defineSetter__''),
     (''hasOwnProperty'', NativeFunction ''hasOwnProperty''),
     (''__lookupGetter__'', NativeFunction ''__lookupGetter__''),
     (''__lookupSetter__'', NativeFunction ''__lookupSetter__''),
     (''isPrototypeOf'', NativeFunction ''isPrototypeOf''),
     (''propertyIsEnumerable'', NativeFunction ''propertyIsEnumerable''),
     (''toString'', NativeFunction ''toString''),
     (''valueOf'', NativeFunction ''valueOf''),
     (''__proto__'', ObjectPrototype),
     (''toLocaleString'', NativeFunction ''toLocaleString'')]"

text \<open>\<open>emotionIcons[key]\<close>: own properties first, then the prototype.\<close>

definition icon_lookup :: "string \<Rightarrow> jsvalue option" where
  "icon_lookup key =
     (case map_of emotionIcons key of
        Some icon \<Rightarrow> Some (Str icon)
      | None \<Rightarrow> map_of objectPrototype key)"

definition neutral_icon :: string where
  "neutral_icon = [CHR 0xEF, CHR 0xA3, CHR 0xBF, CHR 0xC3, CHR 0xBC, CHR 0xC3, CHR 0xB2, CHR 0xC3, CHR 0xAA]"

text \<open>\<open>x || neutral\<close>: a missing property and the empty string are falsy.\<close>

fun or_neutral :: "jsvalue option \<Rightarrow> jsvalue" where
  "or_neutral None = Str neutral_icon"
| "or_neutral (Some (Str s)) = (if s = [] then Str neutral_icon else Str s)"
| "or_neutral (Some v) = v"

text \<open>
  \<open>getEmotionIcon\<close>. \<open>emotion?.toLowerCase()\<close> is \<open>undefined\<close> for a missing or
  \<open>null\<close> emotion, and the key looked up is then the string \<open>undefined\<close>; on a string
  it is the lower-cased string; on any other value \<open>toLowerCase\<close> is not a function
  and the call throws.
\<close>

fun getEmotionIcon :: "json option \<Rightarrow> exn + jsvalue" where
  "getEmotionIcon None = Inr (or_neutral (icon_lookup ''undefined''))"
| "getEmotionIcon (Some JNull) = Inr (or_neutral (icon_lookup ''undefined''))"
| "getEmotionIcon (Some (JStr s)) = Inr (or_neutral (icon_lookup (toLowerCase s)))"
| "getEmotionIcon (Some v) = Inl TypeError"

text \<open>
  The story block of \<open>populateResults\<close>: \<open>story_text\<close> is the value of
  \<open>storyText\<close> after the three branches on the type of the story, and
  \<open>story_markup\<close> is the markup assigned to the element with id \<open>story-result\<close>.
  An exception of \<open>join\<close> leaves \<open>populateResults\<close> before anything is assigned.
\<close>

definition story_text :: "json \<Rightarrow> exn + string" where
  "story_text story =
     (case story of
        JArr xs \<Rightarrow> array_join '' '' xs
      | JStr s \<Rightarrow> Inr s
      | _ \<Rightarrow> Inr (JSON_stringify story))"

definition story_markup :: "json option \<Rightarrow> exn + string" where
  \<open>story_markup story =
     (if truthy story then
        (case story of
           Some v \<Rightarrow>
             (case story_text v of
                Inl e \<Rightarrow> Inl e
              | Inr storyText \<Rightarrow>
                  Inr (if length (trim storyText) > 0
                       then ''<p class="story-text">'' @ storyText @ ''</p>''
                       else ''<p>No story generated (empty)</p>''))
         | None \<Rightarrow> Inr ''<p>No story generated (undefined)</p>'')
      else Inr ''<p>No story generated (undefined)</p>'')\<close>

section \<open>The reconciliation and synthesis layer (spec.md, sections 3 to 7)\<close>

text \<open>
  The Python backend that implements this layer is not among the source files; only the
  frontend and the README are. Its components are modelled from spec.md. The
  tables and thresholds that the spec leaves open (vocabulary, contradiction relation,
  rule tables, templates, bounds) are the fields of \<open>config\<close>. A text is a list of
  characters, and a length counts them.
\<close>

datatype sceneType = Playful | Focused | Nature | Social | General

datatype error = PerceptionError | GenerationError | QualityError

text \<open>
  Modelled from the spec: a detection of RawPerception (section 3). The confidence is a
  real number; only comparisons of confidences are used.
\<close>

record detection =
  label :: string
  confidence :: real

text \<open>
  Modelled from the spec: a line of a fallback template is a sequence of literal text
  and placeholders "for objects/emotion/caption fragments" (section 4.7).
\<close>

datatype segment = Lit string | ObjectsSlot | EmotionSlot | CaptionSlot

text \<open>
  Modelled from the spec: the static tables and configurable bounds of sections 4.1 to
  4.7, none of which the spec enumerates. \<open>overlaps\<close> is the "high textual overlap"
  test of section 4.6, whose measure and threshold are left open.
\<close>

record config =
  vocabulary :: "string list"
  contradictions :: "(string \<times> string) list"
  threshold :: real
  maxObjects :: nat
  sceneRules :: "((string \<Rightarrow> string list \<Rightarrow> bool) \<times> sceneType \<times> string) list"
  emotionKeywords :: "(string \<times> string) list"
  defaultEmotion :: "sceneType \<Rightarrow> string option"
  maxPromptLength :: nat
  minChars :: nat
  overlaps :: "string \<Rightarrow> string \<Rightarrow> bool"
  minLines :: nat
  maxLines :: nat
  templates :: "sceneType \<Rightarrow> segment list list"

text \<open>Modelled from the spec: the tokens of a caption are its white-space separated words.\<close>

definition blank :: "char \<Rightarrow> bool" where
  "blank c = (c \<in> set [CHR '' '', CHR 0x09, CHR 0x0A, CHR 0x0D])"

fun split_on :: "(char \<Rightarrow> bool) \<Rightarrow> string \<Rightarrow> string list" where
  "split_on p [] = [[]]"
| "split_on p (c # cs) =
     (if p c then [] # split_on p cs
      else (case split_on p cs of w # ws \<Rightarrow> (c # w) # ws | [] \<Rightarrow> [[c]]))"

definition tokens :: "string \<Rightarrow> string list" where
  "tokens text = filter (\<lambda>w. w \<noteq> []) (split_on blank text)"

text \<open>
  Modelled from the spec: "preserving first-appearance order and de-duplicating": an
  item is appended unless it is already present.
\<close>

fun dedup :: "'a list \<Rightarrow> 'a list \<Rightarrow> 'a list" where
  "dedup seen [] = seen"
| "dedup seen (x # xs) = dedup (if x \<in> set seen then seen else seen @ [x]) xs"

subsection \<open>Object Consistency Resolver (section 4.1)\<close>

text \<open>
  Modelled from the spec: step (a), "extract candidate terms from the caption by matching
  against a fixed vocabulary of nouns".
\<close>

definition caption_terms :: "config \<Rightarrow> string \<Rightarrow> string list" where
  "caption_terms cfg text = dedup [] (filter (\<lambda>t. t \<in> set (vocabulary cfg)) (tokens text))"

text \<open>Modelled from the spec: the ContradictionRelation is a symmetric set of unordered pairs.\<close>

definition contradicts :: "config \<Rightarrow> string \<Rightarrow> string \<Rightarrow> bool" where
  "contradicts cfg a b = ((a, b) \<in> set (contradictions cfg) \<or> (b, a) \<in> set (contradictions cfg))"


text \<open>
  Modelled from the spec: step (c), "for each detection at or above threshold, add its
  label only if not already present and not in contradiction with any already-accepted
  label".
\<close>

fun accept :: "config \<Rightarrow> string list \<Rightarrow> detection list \<Rightarrow> string list" where
  "accept cfg acc [] = acc"
| "accept cfg acc (d # ds) =
     accept cfg
       (if threshold cfg \<le> confidence d \<and> label d \<notin> set acc \<and>
           \<not> list_ex (\<lambda>a. contradicts cfg a (label d)) acc
        then acc @ [label d] else acc)
       ds"

text \<open>
  Modelled from the spec: steps (b) and (d), "sort detections by descending confidence"
  and "cap the result at a maximum length".
\<close>

definition resolve_objects :: "config \<Rightarrow> string \<Rightarrow> detection list \<Rightarrow> string list" where
  "resolve_objects cfg text dets =
     take (maxObjects cfg)
       (accept cfg (caption_terms cfg text) (sort_key (\<lambda>d. - confidence d) dets))"

subsection \<open>Scene Classifier and Emotion Inferencer (sections 4.2 and 4.3)\<close>


text \<open>
  Modelled from the spec: "Scans caption tokens against a keyword-to-emotion mapping;
  unions all hits; if none hit, falls back to the default emotion associated with
  sceneType, and if that is also absent, uses neutral".
\<close>

definition emotion_hits :: "config \<Rightarrow> string \<Rightarrow> string list" where
  "emotion_hits cfg text = dedup [] (List.map_filter (map_of (emotionKeywords cfg)) (tokens text))"

definition infer_emotions :: "config \<Rightarrow> string \<Rightarrow> sceneType \<Rightarrow> string list" where
  "infer_emotions cfg text scene =
     (if emotion_hits cfg text \<noteq> [] then emotion_hits cfg text
      else (case defaultEmotion cfg scene of Some e \<Rightarrow> [e] | None \<Rightarrow> [''neutral'']))"

subsection \<open>Narrative Prompt Builder (section 4.4)\<close>



subsection \<open>Narrative Post-processor (section 4.6)\<close>

text \<open>Modelled from the spec: step (1), "strip an exact prompt-echo prefix".\<close>

definition strip_echo :: "string \<Rightarrow> string \<Rightarrow> string" where
  "strip_echo prompt text =
     (if take (length prompt) text = prompt then drop (length prompt) text else text)"

text \<open>
  Modelled from the spec: step (2), "split remaining text into sentence-like units on
  terminal punctuation"; a unit keeps the punctuation mark that ends it.
\<close>

definition terminal :: "char \<Rightarrow> bool" where
  "terminal c = (c \<in> set [CHR ''.'', CHR ''!'', CHR ''?''])"

fun sentences :: "string \<Rightarrow> string list" where
  "sentences [] = [[]]"
| "sentences (c # cs) =
     (if terminal c then [c] # sentences cs
      else (case sentences cs of s # ss \<Rightarrow> (c # s) # ss | [] \<Rightarrow> [[c]]))"

definition strip_blanks :: "string \<Rightarrow> string" where
  "strip_blanks s = rev (dropWhile blank (rev (dropWhile blank s)))"

text \<open>Modelled from the spec: "case/whitespace-normalized equality".\<close>

definition normalize :: "string \<Rightarrow> string" where
  "normalize s = join '' '' (tokens (map lower_char s))"

definition near_duplicate :: "config \<Rightarrow> string list \<Rightarrow> string \<Rightarrow> bool" where
  "near_duplicate cfg kept s =
     list_ex (\<lambda>k. normalize k = normalize s \<or> overlaps cfg k s) kept"

text \<open>
  Modelled from the spec: step (3), "discard empty/whitespace-only sentences,
  near-duplicate sentences and sentences shorter than a minimum character length".
\<close>

fun keep_sentences :: "config \<Rightarrow> string list \<Rightarrow> string list \<Rightarrow> string list" where
  "keep_sentences cfg kept [] = kept"
| "keep_sentences cfg kept (s # ss) =
     keep_sentences cfg
       (if strip_blanks s = [] \<or> length (strip_blanks s) < minChars cfg \<or>
           near_duplicate cfg kept (strip_blanks s)
        then kept else kept @ [strip_blanks s])
       ss"

text \<open>
  Modelled from the spec: step (4), "truncate to maxLines; if fewer than minLines
  survive, raise QualityError".
\<close>

definition post_process :: "config \<Rightarrow> string \<Rightarrow> string \<Rightarrow> error + string list" where
  "post_process cfg prompt text =
     (let kept = take (maxLines cfg) (keep_sentences cfg [] (sentences (strip_echo prompt text)))
      in if length kept < minLines cfg then Inl QualityError else Inr kept)"

subsection \<open>Fallback Template Engine (section 4.7)\<close>

text \<open>
  Modelled from the spec: "Keyed by sceneType; each entry is a parametrized multi-line
  template with placeholders for objects/emotion/caption fragments, filled
  deterministically".
\<close>

fun fill :: "string list \<Rightarrow> string list \<Rightarrow> string \<Rightarrow> segment \<Rightarrow> string" where
  "fill objs emos text (Lit s) = s"
| "fill objs emos text ObjectsSlot = join '', '' objs"
| "fill objs emos text EmotionSlot = join '', '' emos"
| "fill objs emos text CaptionSlot = text"

definition fallback_story :: "config \<Rightarrow> sceneType \<Rightarrow> string list \<Rightarrow> string list \<Rightarrow> string \<Rightarrow> string list" where
  "fallback_story cfg scene objs emos text =
     map (\<lambda>line. concat (map (fill objs emos text) line)) (templates cfg scene)"

subsection \<open>Pipeline Orchestrator (section 4.8)\<close>


text \<open>Modelled from the spec: the AnalysisResult of section 3; the summary is optional.\<close>

record analysisResult =
  caption :: string
  objects :: "string list"
  emotion :: "string list"
  story :: "string list"
  summary :: "string list option"




subsection \<open>First appearance\<close>

text \<open>The position at which \<open>x\<close> first appears in \<open>xs\<close> (the length of \<open>xs\<close> if it never does).\<close>

definition first_index :: "'a list \<Rightarrow> 'a \<Rightarrow> nat" where
  "first_index xs x = length (takeWhile (\<lambda>y. y \<noteq> x) xs)"

section \<open>Example inputs\<close>

text \<open>
  A configuration in the spirit of the scenarios of section 8 of the spec: the pair
  giraffe and rabbit is a contradiction, a forest or a tree makes the scene nature, and
  every template has three lines.
\<close>

definition example_config :: config where
  "example_config =
     \<lparr>vocabulary = [''rabbit'', ''turtle''],
      contradictions = [(''giraffe'', ''rabbit'')],
      threshold = 0.5,
      maxObjects = 12,
      sceneRules =
        [(\<lambda>text objs. ''forest'' \<in> set (tokens text) \<or> ''tree'' \<in> set objs, Nature,
          ''The air is calm and natural'')],
      emotionKeywords = [(''forest'', ''peaceful''), (''smiling'', ''happy'')],
      defaultEmotion = (\<lambda>s. if s = Nature then Some ''peaceful'' else None),
      maxPromptLength = 300,
      minChars = 10,
      overlaps = (\<lambda>a b. False),
      minLines = 3,
      maxLines = 8,
      templates =
        (\<lambda>s. [[Lit ''A quiet scene unfolds.''],
              [Lit ''There is '', ObjectsSlot, Lit '' to see.''],
              [Lit ''The mood is '', EmotionSlot, Lit ''.'']])\<rparr>"

definition example_detections :: "detection list" where
  "example_detections =
     [\<lparr>label = ''giraffe'', confidence = 0.9\<rparr>,
      \<lparr>label = ''turtle'', confidence = 0.8\<rparr>,
      \<lparr>label = ''tree'', confidence = 0.7\<rparr>]"



text \<open>A page that shows an earlier result, and two files.\<close>

definition example_page :: page where
  "example_page =
     \<lparr>results = Some \<lparr>innerHTML = ''<p>old story</p>'', display = ''block''\<rparr>,
      loading_section = Some \<lparr>innerHTML = ''Loading'', display = ''none''\<rparr>,
      analyze_disabled = True,
      preview_reads = []\<rparr>"

definition text_file :: js_file where
  "text_file = \<lparr>file_name = ''notes.txt'', file_type = ''text/plain'', file_size = 12\<rparr>"

definition big_image :: js_file where
  "big_image = \<lparr>file_name = ''big.png'', file_type = ''image/png'', file_size = 10485761\<rparr>"

section \<open>Object Consistency Resolver: properties\<close>

lemma dedup_distinct: "distinct seen \<Longrightarrow> distinct (dedup seen xs)"
  by (induction xs arbitrary: seen) auto

lemma dedup_set: "set (dedup seen xs) = set seen \<union> set xs"
  by (induction xs arbitrary: seen) auto

lemma first_index_append_mem: "a \<in> set pre \<Longrightarrow> first_index (pre @ ys) a = first_index pre a"
  by (simp add: first_index_def)

lemma first_index_less: "a \<in> set pre \<Longrightarrow> first_index pre a < length pre"
  unfolding first_index_def by (induction pre) auto

lemma first_index_new: "x \<notin> set pre \<Longrightarrow> first_index (pre @ x # ys) x = length pre"
  unfolding first_index_def by (induction pre) auto

text \<open>
  The loop invariant of \<open>dedup\<close> after the prefix \<open>pre\<close> of the input: the items seen
  are the selected items of \<open>pre\<close>, in the order of their first appearance.
\<close>

lemma dedup_filter_first_appearance:
  "sorted_wrt (\<lambda>a b. first_index pre a < first_index pre b) seen \<Longrightarrow>
   set seen = {x \<in> set pre. p x} \<Longrightarrow>
   sorted_wrt (\<lambda>a b. first_index (pre @ xs) a < first_index (pre @ xs) b) (dedup seen (filter p xs))"
proof (induction xs arbitrary: seen pre)
  case Nil
  then show ?case by simp
next
  case (Cons x xs)
  have keep: "sorted_wrt (\<lambda>a b. first_index (pre @ [x]) a < first_index (pre @ [x]) b) seen"
    using Cons.prems by (auto intro!: sorted_wrt_mono_rel[OF _ Cons.prems(1)] simp: first_index_append_mem)
  show ?case
  proof (cases "p x \<and> x \<notin> set seen")
    case True
    then have xpre: "x \<notin> set pre" using Cons.prems(2) by auto
    have s: "sorted_wrt (\<lambda>a b. first_index (pre @ [x]) a < first_index (pre @ [x]) b) (seen @ [x])"
      using keep Cons.prems(2) xpre
      by (auto simp: sorted_wrt_append first_index_new first_index_append_mem first_index_less)
    have e: "set (seen @ [x]) = {y \<in> set (pre @ [x]). p y}"
      using True Cons.prems(2) by auto
    from Cons.IH[OF s e] True show ?thesis by simp
  next
    case False
    have e: "set seen = {y \<in> set (pre @ [x]). p y}"
      using False Cons.prems(2) by auto
    from Cons.IH[OF keep e] False show ?thesis by auto
  qed
qed

lemma caption_terms_distinct: "distinct (caption_terms cfg text)"
  by (simp add: caption_terms_def dedup_distinct)

lemma caption_terms_set:
  "set (caption_terms cfg text) = {t \<in> set (tokens text). t \<in> set (vocabulary cfg)}"
  by (auto simp: caption_terms_def dedup_set)

lemma caption_terms_order:
  "sorted_wrt (\<lambda>a b. first_index (tokens text) a < first_index (tokens text) b) (caption_terms cfg text)"
  using dedup_filter_first_appearance[of "[]" "[]" "\<lambda>t. t \<in> set (vocabulary cfg)" "tokens text"]
  by (simp add: caption_terms_def)


lemma accept_distinct: "distinct acc \<Longrightarrow> distinct (accept cfg acc ds)"
  by (induction ds arbitrary: acc) auto

text \<open>The accepted list extends the starting list by labels of detections that were not in it.\<close>

lemma accept_extends:
  "\<exists>ys. accept cfg acc ds = acc @ ys \<and> set ys \<subseteq> label ` set ds \<and> set ys \<inter> set acc = {}"
proof (induction ds arbitrary: acc)
  case Nil
  then show ?case by simp
next
  case (Cons d ds)
  let ?acc = "if threshold cfg \<le> confidence d \<and> label d \<notin> set acc \<and>
                 \<not> list_ex (\<lambda>a. contradicts cfg a (label d)) acc
              then acc @ [label d] else acc"
  from Cons.IH[of ?acc] obtain ys where
    ys: "accept cfg ?acc ds = ?acc @ ys" "set ys \<subseteq> label ` set ds" "set ys \<inter> set ?acc = {}"
    by blast
  show ?case
  proof (cases "?acc = acc")
    case True
    with ys show ?thesis by (intro exI[of _ ys]) auto
  next
    case False
    then have new: "?acc = acc @ [label d]" "label d \<notin> set acc"
      by (auto split: if_splits)
    with ys show ?thesis by (intro exI[of _ "label d # ys"]) auto
  qed
qed


lemma resolve_objects_distinct: "distinct (resolve_objects cfg text dets)"
  by (simp add: resolve_objects_def accept_distinct caption_terms_distinct)

lemma distinct_count_list: "distinct xs \<Longrightarrow> count_list xs x \<le> 1"
  by (induction xs) auto



text \<open>
  Claim C3. The resolved object list has no label twice; it is the caption terms
  followed by labels of detections that are not caption terms, cut at the maximum
  length; and the caption terms are the vocabulary words of the caption in the order of
  their first appearance.
\<close>

theorem resolve_objects_distinct_caption_first:
  "distinct (resolve_objects cfg text dets) \<and>
   (\<exists>ds. resolve_objects cfg text dets = take (maxObjects cfg) (caption_terms cfg text @ ds) \<and>
         set ds \<subseteq> label ` set dets \<and> set ds \<inter> set (caption_terms cfg text) = {}) \<and>
   set (caption_terms cfg text) = {t \<in> set (tokens text). t \<in> set (vocabulary cfg)} \<and>
   sorted_wrt (\<lambda>a b. first_index (tokens text) a < first_index (tokens text) b)
     (caption_terms cfg text)"
proof -
  from accept_extends[of cfg "caption_terms cfg text" "sort_key (\<lambda>d. - confidence d) dets"]
  obtain ds where
    "accept cfg (caption_terms cfg text) (sort_key (\<lambda>d. - confidence d) dets) = caption_terms cfg text @ ds"
    "set ds \<subseteq> label ` set dets" "set ds \<inter> set (caption_terms cfg text) = {}"
    by auto
  then have "\<exists>ds. resolve_objects cfg text dets = take (maxObjects cfg) (caption_terms cfg text @ ds) \<and>
         set ds \<subseteq> label ` set dets \<and> set ds \<inter> set (caption_terms cfg text) = {}"
    unfolding resolve_objects_def by metis
  then show ?thesis
    using resolve_objects_distinct caption_terms_set caption_terms_order by blast
qed

theorem resolve_objects_distinct_caption_first_witness:
  "distinct (resolve_objects example_config ''a rabbit and a turtle in a forest'' example_detections) \<and>
   resolve_objects example_config ''a rabbit and a turtle in a forest'' example_detections =
     [''rabbit'', ''turtle'', ''tree''] \<and>
   caption_terms example_config ''a rabbit and a turtle in a forest'' = [''rabbit'', ''turtle'']"
  using resolve_objects_distinct_caption_first[of example_config
      "''a rabbit and a turtle in a forest''" example_detections]
  by (simp add: resolve_objects_def caption_terms_def tokens_def blank_def contradicts_def
      example_config_def example_detections_def)

text \<open>
  Claim C7. An empty caption with no detections resolves to the empty list, and no
  label occurs more than once in a resolved list, however often the detections repeat
  it.
\<close>

theorem resolve_objects_empty_and_duplicates:
  "resolve_objects cfg [] [] = [] \<and> count_list (resolve_objects cfg text dets) l \<le> 1"
proof -
  have "resolve_objects cfg [] [] = []"
    by (simp add: resolve_objects_def caption_terms_def tokens_def)
  moreover have "count_list (resolve_objects cfg text dets) l \<le> 1"
    by (rule distinct_count_list[OF resolve_objects_distinct])
  ultimately show ?thesis by simp
qed

theorem resolve_objects_empty_and_duplicates_witness:
  "resolve_objects example_config [] [] = [] \<and>
   count_list (resolve_objects example_config ''a turtle''
      [\<lparr>label = ''tree'', confidence = 0.9\<rparr>, \<lparr>label = ''tree'', confidence = 0.8\<rparr>,
       \<lparr>label = ''turtle'', confidence = 0.7\<rparr>]) ''tree'' \<le> 1 \<and>
   resolve_objects example_config ''a turtle''
      [\<lparr>label = ''tree'', confidence = 0.9\<rparr>, \<lparr>label = ''tree'', confidence = 0.8\<rparr>,
       \<lparr>label = ''turtle'', confidence = 0.7\<rparr>] = [''turtle'', ''tree'']"
  using resolve_objects_empty_and_duplicates[of example_config "''a turtle''"
      "[\<lparr>label = ''tree'', confidence = 0.9\<rparr>, \<lparr>label = ''tree'', confidence = 0.8\<rparr>,
        \<lparr>label = ''turtle'', confidence = 0.7\<rparr>]" "''tree''"]
  by (simp add: resolve_objects_def caption_terms_def tokens_def blank_def contradicts_def
      example_config_def)

section \<open>Emotion Inferencer, narrative and orchestrator: properties\<close>

lemma set_map_filter: "set (List.map_filter f xs) = {y. \<exists>x. x \<in> set xs \<and> f x = Some y}"
  by (induction xs) (auto split: option.splits)

lemma emotion_hits_set:
  "set (emotion_hits cfg text) =
     {e. \<exists>t. t \<in> set (tokens text) \<and> map_of (emotionKeywords cfg) t = Some e}"
  by (auto simp: emotion_hits_def dedup_set set_map_filter)

text \<open>
  Claim C4. The emotion list is never empty: it is the de-duplicated union of the
  emotions of the caption tokens that are keywords; when no token is a keyword it is the
  default emotion of the scene type, or neutral when the scene type has none. An empty
  caption gives that default.
\<close>

theorem infer_emotions_nonempty:
  "infer_emotions cfg text scene \<noteq> [] \<and>
   set (emotion_hits cfg text) =
     {e. \<exists>t. t \<in> set (tokens text) \<and> map_of (emotionKeywords cfg) t = Some e} \<and>
   distinct (emotion_hits cfg text) \<and>
   (emotion_hits cfg text \<noteq> [] \<longrightarrow> infer_emotions cfg text scene = emotion_hits cfg text) \<and>
   (emotion_hits cfg text = [] \<longrightarrow>
      infer_emotions cfg text scene =
        [case defaultEmotion cfg scene of Some e \<Rightarrow> e | None \<Rightarrow> ''neutral'']) \<and>
   infer_emotions cfg [] scene =
     [case defaultEmotion cfg scene of Some e \<Rightarrow> e | None \<Rightarrow> ''neutral'']"
proof -
  have nonempty: "infer_emotions cfg text scene \<noteq> []"
    by (simp add: infer_emotions_def split: option.splits)
  have d: "distinct (emotion_hits cfg text)"
    by (simp add: emotion_hits_def dedup_distinct)
  have none: "emotion_hits cfg [] = []"
    by (simp add: emotion_hits_def tokens_def List.map_filter_simps)
  have dflt: "emotion_hits cfg t = [] \<Longrightarrow>
      infer_emotions cfg t scene =
        [case defaultEmotion cfg scene of Some e \<Rightarrow> e | None \<Rightarrow> ''neutral'']" for t
    by (simp add: infer_emotions_def split: option.splits)
  show ?thesis
    using nonempty d emotion_hits_set[of cfg "text"] dflt[of "text"] dflt[OF none]
    by (simp add: infer_emotions_def)
qed

theorem infer_emotions_nonempty_witness:
  "infer_emotions example_config [] General = [''neutral''] \<and>
   infer_emotions example_config [] General \<noteq> [] \<and>
   emotion_hits example_config ''a smiling rabbit in a forest'' = [''happy'', ''peaceful''] \<and>
   infer_emotions example_config ''a smiling rabbit in a forest'' General = [''happy'', ''peaceful''] \<and>
   infer_emotions example_config ''a turtle'' Nature = [''peaceful'']"
proof -
  have h: "emotion_hits example_config ''a smiling rabbit in a forest'' = [''happy'', ''peaceful'']"
    by (simp add: emotion_hits_def tokens_def blank_def example_config_def List.map_filter_simps)
  have n: "emotion_hits example_config ''a turtle'' = []"
    by (simp add: emotion_hits_def tokens_def blank_def example_config_def List.map_filter_simps)
  have d: "defaultEmotion example_config General = None"
    "defaultEmotion example_config Nature = Some ''peaceful''"
    by (simp_all add: example_config_def)
  show ?thesis
    using infer_emotions_nonempty[of example_config "[]" General]
      infer_emotions_nonempty[of example_config "''a smiling rabbit in a forest''" General]
      infer_emotions_nonempty[of example_config "''a turtle''" Nature]
      h n d
    by simp
qed



lemma post_process_bounds:
  "post_process cfg prompt txt = Inr ls \<Longrightarrow> minLines cfg \<le> length ls \<and> length ls \<le> maxLines cfg"
  by (auto simp: post_process_def Let_def split: if_splits)

lemma post_process_error: "post_process cfg prompt txt = Inl e \<Longrightarrow> e = QualityError"
  by (auto simp: post_process_def Let_def split: if_splits)

lemma fallback_story_length: "length (fallback_story cfg scene objs emos txt) = length (templates cfg scene)"
  by (simp add: fallback_story_def)

section \<open>File validation and rendering: properties\<close>

lemma showError_keeps:
  "preview_reads (showError m p) = preview_reads p \<and>
   analyze_disabled (showError m p) = analyze_disabled p \<and>
   results (showError m p) =
     map_option (\<lambda>e. e\<lparr>display := ''block'', innerHTML := error_card m\<rparr>) (results p)"
  by (simp add: showError_def)

text \<open>
  Claim C8, as amended. When the MIME type of the file does not start with
  \<open>image/\<close> or its size exceeds 10*1024*1024 bytes, \<open>handleFile\<close> does what
  \<open>showError\<close> does and returns: the markup of the results element, previous results
  included, is replaced by an error card with the message (nothing is shown when the
  element is absent), no preview read is started and the disabled flag of the analyze
  button is left as it was.
\<close>

theorem handleFile_rejects:
  "\<not> startsWith (file_type f) ''image/'' \<or> 10 * 1024 * 1024 < file_size f \<Longrightarrow>
   (let message =
          (if \<not> startsWith (file_type f) ''image/''
           then ''Please select an image file (JPEG, PNG, GIF, etc.)''
           else ''File size must be less than 10MB'')
    in handleFile f p = (showError message p, Returned) \<and>
       preview_reads (fst (handleFile f p)) = preview_reads p \<and>
       analyze_disabled (fst (handleFile f p)) = analyze_disabled p \<and>
       results (fst (handleFile f p)) =
         map_option (\<lambda>e. e\<lparr>display := ''block'', innerHTML := error_card message\<rparr>) (results p))"
proof -
  assume rejected: "\<not> startsWith (file_type f) ''image/'' \<or> 10 * 1024 * 1024 < file_size f"
  let ?message = "if \<not> startsWith (file_type f) ''image/''
                  then ''Please select an image file (JPEG, PNG, GIF, etc.)''
                  else ''File size must be less than 10MB''"
  have "handleFile f p = (showError ?message p, Returned)"
  proof (cases "startsWith (file_type f) ''image/''")
    case True
    with rejected have "10 * 1024 * 1024 < file_size f" by simp
    with True show ?thesis by (simp add: handleFile_def)
  next
    case False
    then show ?thesis by (simp add: handleFile_def)
  qed
  then show ?thesis by (simp add: Let_def showError_keeps)
qed

theorem handleFile_rejects_witness:
  "\<not> startsWith (file_type text_file) ''image/'' \<and>
   handleFile text_file example_page =
     (showError ''Please select an image file (JPEG, PNG, GIF, etc.)'' example_page, Returned) \<and>
   preview_reads (fst (handleFile text_file example_page)) = [] \<and>
   analyze_disabled (fst (handleFile text_file example_page)) = True \<and>
   10 * 1024 * 1024 < file_size big_image \<and>
   handleFile big_image example_page =
     (showError ''File size must be less than 10MB'' example_page, Returned)"
proof -
  have t: "\<not> startsWith (file_type text_file) ''image/''"
    by (simp add: startsWith_def text_file_def)
  have i: "startsWith (file_type big_image) ''image/''"
    by (simp add: startsWith_def big_image_def)
  have b: "10 * 1024 * 1024 < file_size big_image"
    by (simp add: big_image_def)
  have p: "preview_reads example_page = []" "analyze_disabled example_page = True"
    by (simp_all add: example_page_def)
  show ?thesis
    using handleFile_rejects[of text_file example_page] handleFile_rejects[of big_image example_page]
      t i b p
    by (simp add: Let_def showError_keeps)
qed

text \<open>
  The claim as stated fails: after a rejected file the results element no longer holds
  the previous results but the error card.
\<close>

theorem handleFile_replaces_results_counterexample:
  "results example_page = Some \<lparr>innerHTML = ''<p>old story</p>'', display = ''block''\<rparr> \<and>
   results (fst (handleFile text_file example_page)) =
     Some \<lparr>innerHTML = error_card ''Please select an image file (JPEG, PNG, GIF, etc.)'',
           display = ''block''\<rparr> \<and>
   error_card ''Please select an image file (JPEG, PNG, GIF, etc.)'' \<noteq> ''<p>old story</p>''"
  by (simp add: handleFile_def startsWith_def text_file_def example_page_def showError_def
      error_card_def error_card_head_def nl_def)

lemma emotionIcons_nonempty: "map_of emotionIcons k = Some icon \<Longrightarrow> icon \<noteq> []"
  by (auto simp: emotionIcons_def split: if_splits)

lemma icon_lookup_undefined: "icon_lookup ''undefined'' = None"
  by (simp add: icon_lookup_def emotionIcons_def objectPrototype_def)

text \<open>
  Claim C9, as amended. For a missing or \<open>null\<close> emotion \<open>getEmotionIcon\<close> returns
  the neutral icon. For a string it does not throw: when the lower-cased string is a key
  of the icon map it returns the icon of that key, and when it is neither a key of the
  map nor the name of a member of \<open>Object.prototype\<close> it returns the neutral icon. For
  any other value (a number, a boolean, an array, an object) it throws a TypeError.
\<close>

theorem getEmotionIcon_icon:
  "getEmotionIcon None = Inr (Str neutral_icon) \<and>
   getEmotionIcon (Some JNull) = Inr (Str neutral_icon) \<and>
   (map_of emotionIcons (toLowerCase s) = Some icon \<longrightarrow>
      getEmotionIcon (Some (JStr s)) = Inr (Str icon)) \<and>
   (map_of emotionIcons (toLowerCase s) = None \<and> map_of objectPrototype (toLowerCase s) = None \<longrightarrow>
      getEmotionIcon (Some (JStr s)) = Inr (Str neutral_icon)) \<and>
   (v \<noteq> JNull \<and> (\<forall>t. v \<noteq> JStr t) \<longrightarrow> getEmotionIcon (Some v) = Inl TypeError)"
proof -
  have mapped: "getEmotionIcon (Some (JStr s)) = Inr (Str icon)"
    if "map_of emotionIcons (toLowerCase s) = Some icon"
    using that emotionIcons_nonempty[OF that] by (simp add: icon_lookup_def)
  have unmapped: "getEmotionIcon (Some (JStr s)) = Inr (Str neutral_icon)"
    if "map_of emotionIcons (toLowerCase s) = None" "map_of objectPrototype (toLowerCase s) = None"
    using that by (simp add: icon_lookup_def)
  have other: "getEmotionIcon (Some v) = Inl TypeError" if "v \<noteq> JNull" "\<forall>t. v \<noteq> JStr t"
    using that by (cases v) simp_all
  show ?thesis
    using mapped unmapped other by (simp add: icon_lookup_undefined)
qed

theorem getEmotionIcon_icon_witness:
  "map_of emotionIcons (toLowerCase ''HAPPY'') =
     Some [CHR 0xEF, CHR 0xA3, CHR 0xBF, CHR 0xC3, CHR 0xBC, CHR 0xC3, CHR 0xB2, CHR 0xC3, CHR 0xA4] \<and>
   getEmotionIcon (Some (JStr ''HAPPY'')) =
     Inr (Str [CHR 0xEF, CHR 0xA3, CHR 0xBF, CHR 0xC3, CHR 0xBC, CHR 0xC3, CHR 0xB2, CHR 0xC3, CHR 0xA4]) \<and>
   map_of emotionIcons (toLowerCase ''Bored'') = None \<and>
   map_of objectPrototype (toLowerCase ''Bored'') = None \<and>
   getEmotionIcon (Some (JStr ''Bored'')) = Inr (Str neutral_icon) \<and>
   getEmotionIcon (Some (JNum (Nonzero ''3''))) = Inl TypeError"
proof -
  have h: "map_of emotionIcons (toLowerCase ''HAPPY'') =
     Some [CHR 0xEF, CHR 0xA3, CHR 0xBF, CHR 0xC3, CHR 0xBC, CHR 0xC3, CHR 0xB2, CHR 0xC3, CHR 0xA4]"
    by (simp add: emotionIcons_def lower_char_def)
  have b: "map_of emotionIcons (toLowerCase ''Bored'') = None"
    "map_of objectPrototype (toLowerCase ''Bored'') = None"
    by (simp_all add: emotionIcons_def objectPrototype_def lower_char_def)
  show ?thesis
    using getEmotionIcon_icon[of "''HAPPY''" _ "JNum (Nonzero ''3'')"]
      getEmotionIcon_icon[of "''Bored''" _ "JNum (Nonzero ''3'')"] h b
    by simp
qed

text \<open>
  The claim as stated fails: on a list of emotions, which the caller-facing payload of
  the spec allows, the call of \<open>toLowerCase\<close> throws.
\<close>

theorem getEmotionIcon_throws_counterexample:
  "getEmotionIcon (Some (JArr [JStr ''calm'', JStr ''social''])) = Inl TypeError"
  by simp

text \<open>
  A string that names a member of \<open>Object.prototype\<close> gets that member, not an icon.
\<close>

lemma getEmotionIcon_inherited:
  "getEmotionIcon (Some (JStr ''constructor'')) = Inr (NativeFunction ''Object'')"
  by (simp add: icon_lookup_def emotionIcons_def objectPrototype_def lower_char_def)

lemma collect_map_Inr: "collect (map Inr xs) = Inr xs"
  by (induction xs) simp_all

lemma collect_throws: "(collect rs = Inl TypeError) = (Inl TypeError \<in> set rs)"
proof (induction rs rule: collect.induct)
  case (2 e rs)
  then show ?case by (cases e) simp
qed (auto split: sum.splits)

lemma exn_TypeError: "(e :: exn) = TypeError"
  by (cases e) simp

lemma toString_throws: "(toString v = Inl TypeError) = unprintable v"
proof (induction v rule: toString.induct)
  case (5 xs)
  have "(Inl TypeError \<in> set (map (\<lambda>v. case v of JNull \<Rightarrow> Inr [] | _ \<Rightarrow> toString v) xs)) =
        (\<exists>x\<in>set xs. unprintable x)"
  proof -
    have "((case x of JNull \<Rightarrow> Inr [] | _ \<Rightarrow> toString x) = Inl TypeError) = unprintable x"
      if "x \<in> set xs" for x
      using 5[OF that] by (cases x) simp_all
    then show ?thesis by (auto simp: image_iff) metis+
  qed
  then show ?case
    using collect_throws[of "map (\<lambda>v. case v of JNull \<Rightarrow> Inr [] | _ \<Rightarrow> toString v) xs"]
    by (auto simp: list_ex_iff exn_TypeError split: sum.splits)
qed simp_all

lemma array_join_throws: "(array_join sep xs = Inl TypeError) = list_ex unprintable xs"
  using toString_throws[of "JArr xs"]
  by (auto simp: array_join_def exn_TypeError split: sum.splits)

lemma array_join_strings: "array_join sep (map JStr ss) = Inr (join sep ss)"
proof -
  have "map (\<lambda>v. case v of JNull \<Rightarrow> Inr [] | _ \<Rightarrow> toString v) (map JStr ss) = map Inr ss"
    by (induction ss) simp_all
  then show ?thesis unfolding array_join_def by (simp only: collect_map_Inr sum.case)
qed

text \<open>
  Claim C10, as amended. When the story of the response is falsy (missing, \<open>null\<close>,
  \<open>false\<close>, the number 0 or the empty string), the story element gets the placeholder
  "No story generated (undefined)". Otherwise the story text is the elements of an array
  joined by single spaces, a string as it is, or the JSON text of any other value; when
  that text is empty after trimming the element gets the placeholder "No story generated
  (empty)", and else a paragraph with the text. Joining an array throws a TypeError,
  and nothing is rendered, exactly when an element is an object with an own
  \<open>toString\<close> property, directly or inside nested arrays; an array of strings is
  always joined.
\<close>

theorem story_markup_cases:
  \<open>(truthy st \<longleftrightarrow>
      st \<noteq> None \<and> st \<noteq> Some JNull \<and> st \<noteq> Some (JBool False) \<and>
      st \<noteq> Some (JNum Zero) \<and> st \<noteq> Some (JStr [])) \<and>
   (\<not> truthy st \<longrightarrow> story_markup st = Inr ''<p>No story generated (undefined)</p>'') \<and>
   (truthy (Some v) \<and> story_text v = Inr t \<and> trim t = [] \<longrightarrow>
      story_markup (Some v) = Inr ''<p>No story generated (empty)</p>'') \<and>
   (truthy (Some v) \<and> story_text v = Inr t \<and> trim t \<noteq> [] \<longrightarrow>
      story_markup (Some v) = Inr (''<p class="story-text">'' @ t @ ''</p>'')) \<and>
   (truthy (Some v) \<and> story_text v = Inl e \<longrightarrow> story_markup (Some v) = Inl e) \<and>
   story_text (JArr xs) = array_join '' '' xs \<and>
   (array_join '' '' xs = Inl TypeError \<longleftrightarrow> list_ex unprintable xs) \<and>
   story_text (JArr (map JStr ss)) = Inr (join '' '' ss) \<and>
   story_text (JStr s) = Inr s \<and>
   ((\<forall>ys. v \<noteq> JArr ys) \<and> (\<forall>u. v \<noteq> JStr u) \<longrightarrow> story_text v = Inr (JSON_stringify v))\<close>
proof -
  have tr: "truthy st \<longleftrightarrow>
      st \<noteq> None \<and> st \<noteq> Some JNull \<and> st \<noteq> Some (JBool False) \<and>
      st \<noteq> Some (JNum Zero) \<and> st \<noteq> Some (JStr [])"
    by (cases st rule: truthy.cases) auto
  have f: "story_markup st = Inr ''<p>No story generated (undefined)</p>''" if "\<not> truthy st"
    using that by (simp add: story_markup_def)
  have o: "story_text v = Inr (JSON_stringify v)" if "\<forall>ys. v \<noteq> JArr ys" "\<forall>u. v \<noteq> JStr u"
    using that by (cases v) (simp_all add: story_text_def)
  have a: "story_text (JArr xs) = array_join '' '' xs" "story_text (JStr s) = Inr s"
    by (simp_all add: story_text_def)
  have ss: "story_text (JArr (map JStr ss)) = Inr (join '' '' ss)"
    by (simp add: story_text_def array_join_strings)
  have m: \<open>story_markup (Some v) =
      (case story_text v of
         Inl e \<Rightarrow> Inl e
       | Inr t \<Rightarrow> Inr (if trim t = [] then ''<p>No story generated (empty)</p>''
                      else ''<p class="story-text">'' @ t @ ''</p>''))\<close>
    if "truthy (Some v)"
    using that by (simp add: story_markup_def split: sum.splits)
  show ?thesis
    using tr f o a ss m array_join_throws[of "'' ''" xs] by (simp split: sum.splits)
qed

theorem story_markup_cases_witness:
  \<open>truthy (Some (JArr [JStr ''Once.'', JStr ''The end.''])) \<and>
   story_text (JArr [JStr ''Once.'', JStr ''The end.'']) = Inr ''Once. The end.'' \<and>
   trim ''Once. The end.'' \<noteq> [] \<and>
   story_markup (Some (JArr [JStr ''Once.'', JStr ''The end.''])) =
     Inr ''<p class="story-text">Once. The end.</p>'' \<and>
   \<not> truthy (Some (JNum Zero)) \<and>
   story_markup (Some (JNum Zero)) = Inr ''<p>No story generated (undefined)</p>'' \<and>
   truthy (Some (JStr ''  '')) \<and> story_text (JStr ''  '') = Inr ''  '' \<and> trim ''  '' = [] \<and>
   story_markup (Some (JStr ''  '')) = Inr ''<p>No story generated (empty)</p>'' \<and>
   story_text (JObj [(''lines'', JNum (Nonzero ''2''))]) = Inr ''{"lines":2}'' \<and>
   list_ex unprintable [JStr ''Once.'', JObj [(''toString'', JNum (Nonzero ''1''))]] \<and>
   story_text (JArr [JStr ''Once.'', JObj [(''toString'', JNum (Nonzero ''1''))]]) = Inl TypeError \<and>
   story_markup (Some (JArr [JStr ''Once.'', JObj [(''toString'', JNum (Nonzero ''1''))]])) =
     Inl TypeError\<close>
proof -
  have a: "story_text (JArr [JStr ''Once.'', JStr ''The end.'']) = Inr ''Once. The end.''"
    by (simp add: story_text_def array_join_def)
  have at: "trim ''Once. The end.'' \<noteq> []"
    by (simp add: trim_def trimStart_def trimEnd_def ws1_def ws2_def ws3_def)
  have s: "story_text (JStr ''  '') = Inr ''  ''" "trim ''  '' = []"
    by (simp_all add: story_text_def trim_def trimStart_def trimEnd_def ws1_def)
  have j: \<open>JSON_stringify (JObj [(''lines'', JNum (Nonzero ''2''))]) = ''{"lines":2}''\<close>
    by (simp add: quote_def quote_char_def)
  have u: "list_ex unprintable [JStr ''Once.'', JObj [(''toString'', JNum (Nonzero ''1''))]]"
    by simp
  have t: "truthy (Some (JArr [JStr ''Once.'', JStr ''The end.'']))" "truthy (Some (JStr ''  ''))"
    "truthy (Some (JArr [JStr ''Once.'', JObj [(''toString'', JNum (Nonzero ''1''))]]))"
    by simp_all
  show ?thesis
    using story_markup_cases[of "Some (JArr [JStr ''Once.'', JStr ''The end.''])"
        "JArr [JStr ''Once.'', JStr ''The end.'']" "''Once. The end.''"]
      story_markup_cases[of "Some (JNum Zero)" "JStr ''  ''" "''  ''"]
      story_markup_cases[of None "JObj [(''lines'', JNum (Nonzero ''2''))]"]
      story_markup_cases[of None "JArr [JStr ''Once.'', JObj [(''toString'', JNum (Nonzero ''1''))]]"
        _ TypeError "[JStr ''Once.'', JObj [(''toString'', JNum (Nonzero ''1''))]]"]
      a at s j u t
    by simp
qed

text \<open>
  The claim as stated fails: \<open>false\<close> is a non-null value that is neither an array nor
  a string, and it is not JSON-stringified: the placeholder is shown.
\<close>

theorem story_markup_false_counterexample:
  \<open>story_markup (Some (JBool False)) = Inr ''<p>No story generated (undefined)</p>'' \<and>
   story_markup (Some (JBool False)) \<noteq>
     Inr (''<p class="story-text">'' @ JSON_stringify (JBool False) @ ''</p>'')\<close>
  by (simp add: story_markup_def)

end
